theory Spec2Isabelle
  imports Main
begin

section \<open>The version-adaptive extraction-and-cache engine of tailwindcss-patch\<close>

text \<open>
  A shallow embedding of \<^verbatim>\<open>api/tailwindcss-patcher.ts\<close>: the version resolver, the
  selection of the build execution options, and the methods of the class
  \<^verbatim>\<open>TailwindcssPatcher\<close>. Everything the methods do to the outside (the cache file, the
  build, the file system) is a step on an explicit \<open>world\<close>; every \<^verbatim>\<open>throw\<close> and every
  rejected promise is a value \<open>Inl\<close> of a sum type.
\<close>

subsection \<open>Class sets\<close>

text \<open>
  A JavaScript \<^verbatim>\<open>Set<string>\<close> keeps its members in insertion order and holds each one
  once. It is modelled as the list of its members in that order; \<^verbatim>\<open>set.add(v)\<close> appends
  \<open>v\<close> when it is new, \<^verbatim>\<open>set.size\<close> is the length and \<^verbatim>\<open>Array.from(set)\<close> the list itself.
\<close>

type_synonym js_set = "string list"

definition set_add :: "string \<Rightarrow> js_set \<Rightarrow> js_set" where
  "set_add v s = (if v \<in> set s then s else s @ [v])"

definition set_size :: "js_set \<Rightarrow> nat" where
  "set_size s = length s"


subsection \<open>Errors\<close>

text \<open>A JavaScript \<^verbatim>\<open>Error\<close> with its message.\<close>

datatype error = Error string

subsection \<open>Normalized options\<close>

text \<open>
  The fields of \<^verbatim>\<open>NormalizedTailwindcssPatchOptions\<close> that the class reads. The shared
  \<^verbatim>\<open>tailwind\<close> options and the per-version sub-configs \<^verbatim>\<open>v2\<close>/\<^verbatim>\<open>v3\<close> carry the same three
  optional fields \<^verbatim>\<open>cwd\<close>, \<^verbatim>\<open>config\<close>, \<^verbatim>\<open>postcssPlugin\<close>; an optional field is an \<open>option\<close>.
\<close>

record runtime_options =
  cwd :: "string option"
  config :: "string option"
  postcssPlugin :: "string option"

text \<open>A glob-like source entry (\<^verbatim>\<open>SourceEntry\<close>), kept opaque.\<close>

type_synonym source_entry = string

record v4_options =
  cssEntries :: "string list"
  sources :: "source_entry list option"

record tailwind_options = runtime_options +
  packageName :: string
  versionHint :: "nat option"
  resolve :: "string list"
  v2 :: "runtime_options option"
  v3 :: "runtime_options option"
  v4 :: "v4_options option"

datatype cache_strategy = Merge | Overwrite

record cache_options =
  cache_enabled :: bool
  cache_dir :: string
  cache_file :: string
  strategy :: cache_strategy

datatype output_format = Json | Lines

text \<open>\<^verbatim>\<open>output.pretty\<close> is a number or a boolean.\<close>

datatype pretty = PrettyNumber nat | PrettyBoolean bool

record output_options =
  output_enabled :: bool
  output_file :: "string option"
  format :: output_format
  pretty :: pretty

record normalized_options =
  projectRoot :: string
  tailwind :: tailwind_options
  cache :: cache_options
  output_cfg :: output_options
  class_filter :: "string \<Rightarrow> bool"
  exposeContext_refProperty :: string

subsection \<open>The world outside the class\<close>

text \<open>
  A persisted cache file: absent, present but not parsable, or holding a set of strings.
  The file of a store lies at \<^verbatim>\<open>{dir}/{file}\<close>; the pair of the two names is its place.
\<close>

datatype cache_content = Absent | Unparsable | Persisted js_set

type_synonym store_path = "string \<times> string"

record execution_options =
  exec_cwd :: string
  exec_config :: "string option"
  exec_postcssPlugin :: "string option"

record build_options = execution_options +
  build_majorVersion :: nat

text \<open>
  Every call that leaves the class is recorded, in order: the reads and writes of the
  cache store, the build, the loading of the runtime contexts, the v4 collector, the token
  scan, and the calls of \<^verbatim>\<open>fs-extra\<close> and the logger made by \<^verbatim>\<open>extract\<close>. A call of
  \<^verbatim>\<open>fs-extra\<close> is recorded with its outcome: \<open>None\<close> when its promise is fulfilled, the
  error when it is rejected.
\<close>

datatype event =
    CacheRead
  | CacheWrite js_set
  | RunTailwindBuild build_options
  | LoadRuntimeContexts nat string
  | CollectClassesFromTailwindV4
  | EnsureDir string "error option"
  | WriteJSON string "string list" "nat option" "error option"
  | WriteFile string string "error option"
  | LoggerSuccess string
  | ExtractProjectCandidates string "source_entry list"

record world =
  cache_files :: "store_path \<Rightarrow> cache_content"
  trace :: "event list"

definition emit :: "event \<Rightarrow> world \<Rightarrow> world" where
  "emit e w = w\<lparr>trace := trace w @ [e]\<rparr>"

subsection \<open>Cache store\<close>

text \<open>
  Modelled from the spec: the class \<^verbatim>\<open>CacheStore\<close> (\<^verbatim>\<open>cache/store.ts\<close>) is not among the
  sources. A store is made from the \<^verbatim>\<open>cache\<close> options and is identified with them.
  Section 4.3: \<^verbatim>\<open>read\<close> returns an empty set if no file exists or it is
  unparsable and never raises; \<^verbatim>\<open>write\<close> persists exactly the provided set, replacing any
  prior content. The synchronous pair has identical semantics.
\<close>

definition persisted :: "cache_content \<Rightarrow> js_set" where
  "persisted c = (case c of Absent \<Rightarrow> [] | Unparsable \<Rightarrow> [] | Persisted s \<Rightarrow> s)"

definition store_path :: "cache_options \<Rightarrow> store_path" where
  "store_path st = (cache_dir st, cache_file st)"

definition cacheStore_read :: "cache_options \<Rightarrow> world \<Rightarrow> js_set \<times> world" where
  "cacheStore_read st w = (persisted (cache_files w (store_path st)), emit CacheRead w)"

definition cacheStore_write :: "cache_options \<Rightarrow> js_set \<Rightarrow> world \<Rightarrow> world" where
  "cacheStore_write st s w =
     emit (CacheWrite s) (w\<lparr>cache_files := (cache_files w)(store_path st := Persisted s)\<rparr>)"

definition cacheStore_readSync :: "cache_options \<Rightarrow> world \<Rightarrow> js_set \<times> world" where
  "cacheStore_readSync st w = (persisted (cache_files w (store_path st)), emit CacheRead w)"

definition cacheStore_writeSync :: "cache_options \<Rightarrow> js_set \<Rightarrow> world \<Rightarrow> world" where
  "cacheStore_writeSync st s w =
     emit (CacheWrite s) (w\<lparr>cache_files := (cache_files w)(store_path st := Persisted s)\<rparr>)"

text \<open>The sets handed to the store's \<^verbatim>\<open>write\<close>, in order.\<close>

fun cache_writes :: "event list \<Rightarrow> js_set list" where
  "cache_writes [] = []"
| "cache_writes (CacheWrite s # es) = s # cache_writes es"
| "cache_writes (_ # es) = cache_writes es"

subsection \<open>Version resolver\<close>

text \<open>
  \<^verbatim>\<open>resolveMajorVersion(version, hint)\<close>. \<^verbatim>\<open>coerce\<close> of the package \<^verbatim>\<open>semver\<close> is a
  parameter: it gives the major component of the coerced version, or \<open>None\<close> where
  \<^verbatim>\<open>coerce\<close> returns \<^verbatim>\<open>null\<close>. A \<^verbatim>\<open>null\<close>, \<^verbatim>\<open>undefined\<close> or empty version string is falsy, and
  so is the hint \<open>0\<close>.
\<close>

definition resolveMajorVersion ::
  "(string \<Rightarrow> nat option) \<Rightarrow> string option \<Rightarrow> nat option \<Rightarrow> nat" where
  "resolveMajorVersion coerce version hint =
     (if (case hint of None \<Rightarrow> False | Some h \<Rightarrow> h \<noteq> 0 \<and> h \<in> set [2, 3, 4])
      then the hint
      else
        (case version of
           None \<Rightarrow> 3
         | Some v \<Rightarrow>
             if v = [] then 3
             else
               (case coerce v of
                  None \<Rightarrow> 3
                | Some major \<Rightarrow>
                    if major = 2 \<or> major = 3 \<or> major = 4 then major
                    else if major \<ge> 4 then 4
                    else 3)))"

subsection \<open>Execution options of the v2/v3 build\<close>

text \<open>
  \<^verbatim>\<open>resolveTailwindExecutionOptions(normalized, majorVersion)\<close>; \<^verbatim>\<open>a ?? b\<close> is \<open>b\<close>
  exactly when \<open>a\<close> is \<^verbatim>\<open>undefined\<close> or \<^verbatim>\<open>null\<close>.
\<close>

definition nullish :: "'a option \<Rightarrow> 'a option \<Rightarrow> 'a option" where
  "nullish a b = (case a of Some x \<Rightarrow> Some x | None \<Rightarrow> b)"

definition nullish_or :: "'a option \<Rightarrow> 'a \<Rightarrow> 'a" where
  "nullish_or a b = (case a of Some x \<Rightarrow> x | None \<Rightarrow> b)"

definition resolveTailwindExecutionOptions ::
  "normalized_options \<Rightarrow> nat \<Rightarrow> execution_options" where
  "resolveTailwindExecutionOptions normalized majorVersion =
     (let base = tailwind normalized in
      if majorVersion = 2 \<and> v2 base \<noteq> None then
        \<lparr>exec_cwd = nullish_or (nullish (cwd (the (v2 base))) (cwd base)) (projectRoot normalized),
         exec_config = nullish (config (the (v2 base))) (config base),
         exec_postcssPlugin = nullish (postcssPlugin (the (v2 base))) (postcssPlugin base)\<rparr>
      else if majorVersion = 3 \<and> v3 base \<noteq> None then
        \<lparr>exec_cwd = nullish_or (nullish (cwd (the (v3 base))) (cwd base)) (projectRoot normalized),
         exec_config = nullish (config (the (v3 base))) (config base),
         exec_postcssPlugin = nullish (postcssPlugin (the (v3 base))) (postcssPlugin base)\<rparr>
      else
        \<lparr>exec_cwd = nullish_or (cwd base) (projectRoot normalized),
         exec_config = config base,
         exec_postcssPlugin = postcssPlugin base\<rparr>)"

subsection \<open>Collaborators\<close>

text \<open>
  The functions the class imports and the sources do not hold are parameters, collected in
  one record. A collaborator that looks at the project (the build, the runtime contexts,
  the v4 collector) may answer differently as the world changes, so it is given the world;
  one that can throw or reject answers with a sum.
\<close>

record package_info =
  pkg_name :: string
  version :: "string option"
  rootPath :: string

record token_location =
  tok_file :: string
  relativeFile :: string
  line :: nat
  column :: nat
  start_offset :: nat
  end_offset :: nat
  rawCandidate :: string

record token_report =
  entries :: "token_location list"
  filesScanned :: nat
  skippedFiles :: "(string \<times> string) list"

record 'c env =
  coerce :: "string \<Rightarrow> nat option"
  package_lookup :: "string \<Rightarrow> string list \<Rightarrow> package_info option"
  build_outcome :: "world \<Rightarrow> build_options \<Rightarrow> error option"
  contexts_loaded :: "world \<Rightarrow> package_info \<Rightarrow> nat \<Rightarrow> string \<Rightarrow> error + 'c list"
  classes_of_contexts :: "'c list \<Rightarrow> (string \<Rightarrow> bool) \<Rightarrow> js_set"
  classes_of_v4 :: "world \<Rightarrow> normalized_options \<Rightarrow> error + js_set"
  path_resolve :: "string \<Rightarrow> string"
  path_dirname :: "string \<Rightarrow> string"
  process_cwd :: string
  files_under :: "world \<Rightarrow> string \<Rightarrow> string list"
  source_matches :: "string \<Rightarrow> source_entry \<Rightarrow> string \<Rightarrow> bool"
  candidates_of :: "world \<Rightarrow> string \<Rightarrow> string + token_location list"
  ensureDir_outcome :: "world \<Rightarrow> string \<Rightarrow> error option"
  writeJSON_outcome :: "world \<Rightarrow> string \<Rightarrow> error option"
  writeFile_outcome :: "world \<Rightarrow> string \<Rightarrow> error option"

definition getPackageInfoSync :: "'c env \<Rightarrow> string \<Rightarrow> string list \<Rightarrow> package_info option" where
  "getPackageInfoSync env name resolve_options = package_lookup env name resolve_options"

definition runTailwindBuild ::
  "'c env \<Rightarrow> build_options \<Rightarrow> world \<Rightarrow> (error + unit) \<times> world" where
  "runTailwindBuild env opts w =
     ((case build_outcome env w opts of Some e \<Rightarrow> Inl e | None \<Rightarrow> Inr ()),
      emit (RunTailwindBuild opts) w)"

definition loadRuntimeContexts ::
  "'c env \<Rightarrow> package_info \<Rightarrow> nat \<Rightarrow> string \<Rightarrow> world \<Rightarrow> (error + 'c list) \<times> world" where
  "loadRuntimeContexts env info major refProperty w =
     (contexts_loaded env w info major refProperty, emit (LoadRuntimeContexts major refProperty) w)"

definition collectClassesFromContexts ::
  "'c env \<Rightarrow> 'c list \<Rightarrow> (string \<Rightarrow> bool) \<Rightarrow> js_set" where
  "collectClassesFromContexts env contexts flt = classes_of_contexts env contexts flt"

definition collectClassesFromTailwindV4 ::
  "'c env \<Rightarrow> normalized_options \<Rightarrow> world \<Rightarrow> (error + js_set) \<times> world" where
  "collectClassesFromTailwindV4 env opts w =
     (classes_of_v4 env w opts, emit CollectClassesFromTailwindV4 w)"




subsection \<open>Token extractor\<close>

text \<open>
  Modelled from the spec: \<^verbatim>\<open>extractProjectCandidatesWithPositions\<close>
  (\<^verbatim>\<open>extraction/candidate-extractor.ts\<close>) is not among the sources. Section 4.5: it scans
  the files matched by \<^verbatim>\<open>sources\<close> (glob-like entries) and attempts to parse each for
  candidate tokens; on a per-file failure it records the file and a reason in
  \<^verbatim>\<open>skippedFiles\<close> and continues. Which files lie under \<^verbatim>\<open>cwd\<close>, which of them an entry
  matches and what parsing a file yields are parameters.
\<close>

fun scan_files ::
  "(string \<Rightarrow> string + token_location list) \<Rightarrow> string list \<Rightarrow>
   token_location list \<times> (string \<times> string) list" where
  "scan_files parse [] = ([], [])"
| "scan_files parse (f # fs) =
     (case scan_files parse fs of
        (found, skipped) \<Rightarrow>
          (case parse f of
             Inl reason \<Rightarrow> (found, (f, reason) # skipped)
           | Inr tokens \<Rightarrow> (tokens @ found, skipped)))"

definition extractProjectCandidatesWithPositions ::
  "'c env \<Rightarrow> string \<Rightarrow> source_entry list \<Rightarrow> world \<Rightarrow> token_report \<times> world" where
  "extractProjectCandidatesWithPositions env dir srcs w =
     (let matched = filter (\<lambda>f. list_ex (\<lambda>s. source_matches env dir s f) srcs) (files_under env w dir);
          scanned = scan_files (candidates_of env w) matched
      in (\<lparr>entries = fst scanned, filesScanned = length matched, skippedFiles = snd scanned\<rparr>,
          emit (ExtractProjectCandidates dir srcs) w))"

subsection \<open>The class TailwindcssPatcher\<close>

record patcher =
  options :: normalized_options
  packageInfo :: package_info
  majorVersion :: nat
  cacheStore :: cache_options

text \<open>
  The argument of the constructor is of the current or of the legacy shape; the legacy one
  is the one with a key \<^verbatim>\<open>patch\<close>. \<^verbatim>\<open>fromLegacyOptions\<close> and \<^verbatim>\<open>normalizeOptions\<close> are
  not among the sources and are parameters.
\<close>

datatype ('o, 'l) init_options = Current 'o | Legacy 'l

definition unable_to_locate :: "string \<Rightarrow> string" where
  "unable_to_locate name =
     ''Unable to locate Tailwind CSS package '' @ [CHR 0x22] @ name @ [CHR 0x22] @ ''.''"

definition new_TailwindcssPatcher ::
  "'c env \<Rightarrow> ('l \<Rightarrow> 'o) \<Rightarrow> ('o \<Rightarrow> normalized_options) \<Rightarrow> ('o, 'l) init_options \<Rightarrow>
   error + patcher" where
  "new_TailwindcssPatcher env fromLegacyOptions normalizeOptions init =
     (let resolvedOptions = (case init of Legacy l \<Rightarrow> fromLegacyOptions l | Current opts \<Rightarrow> opts);
          this_options = normalizeOptions resolvedOptions
      in case getPackageInfoSync env (packageName (tailwind this_options))
                (resolve (tailwind this_options)) of
           None \<Rightarrow> Inl (Error (unable_to_locate (packageName (tailwind this_options))))
         | Some info \<Rightarrow>
             Inr \<lparr>options = this_options,
                  packageInfo = info,
                  majorVersion = resolveMajorVersion (coerce env) (version info)
                                   (versionHint (tailwind this_options)),
                  cacheStore = cache this_options\<rparr>)"

definition getContexts :: "'c env \<Rightarrow> patcher \<Rightarrow> world \<Rightarrow> (error + 'c list) \<times> world" where
  "getContexts env this w =
     loadRuntimeContexts env (packageInfo this) (majorVersion this)
       (exposeContext_refProperty (options this)) w"

definition runTailwindBuildIfNeeded ::
  "'c env \<Rightarrow> patcher \<Rightarrow> world \<Rightarrow> (error + unit) \<times> world" where
  "runTailwindBuildIfNeeded env this w =
     (if majorVersion this = 2 \<or> majorVersion this = 3 then
        (let executionOptions = resolveTailwindExecutionOptions (options this) (majorVersion this)
         in runTailwindBuild env
              \<lparr>exec_cwd = exec_cwd executionOptions,
               exec_config = exec_config executionOptions,
               exec_postcssPlugin = exec_postcssPlugin executionOptions,
               build_majorVersion = majorVersion this\<rparr> w)
      else (Inr (), w))"

definition collectClassSet :: "'c env \<Rightarrow> patcher \<Rightarrow> world \<Rightarrow> (error + js_set) \<times> world" where
  "collectClassSet env this w =
     (if majorVersion this = 4 then collectClassesFromTailwindV4 env (options this) w
      else
        (case getContexts env this w of
           (Inl e, w') \<Rightarrow> (Inl e, w')
         | (Inr contexts, w') \<Rightarrow>
             (Inr (collectClassesFromContexts env contexts (class_filter (options this))), w')))"

definition sync_unsupported :: string where
  "sync_unsupported =
     ''getClassSetSync is not supported for Tailwind CSS v4 projects. Use getClassSet instead.''"

definition collectClassSetSync :: "'c env \<Rightarrow> patcher \<Rightarrow> world \<Rightarrow> (error + js_set) \<times> world" where
  "collectClassSetSync env this w =
     (if majorVersion this = 4 then (Inl (Error sync_unsupported), w)
      else
        (case getContexts env this w of
           (Inl e, w') \<Rightarrow> (Inl e, w')
         | (Inr contexts, w') \<Rightarrow>
             (Inr (collectClassesFromContexts env contexts (class_filter (options this))), w')))"

text \<open>
  \<^verbatim>\<open>mergeWithCache(set)\<close>. Under the merge strategy the loop adds every member of the
  persisted set to the observed one, which is then written and returned.
\<close>

definition mergeWithCache :: "patcher \<Rightarrow> js_set \<Rightarrow> world \<Rightarrow> js_set \<times> world" where
  "mergeWithCache this s w =
     (if \<not> cache_enabled (cache (options this)) then (s, w)
      else
        (case cacheStore_read (cacheStore this) w of
           (existing, w1) \<Rightarrow>
             if strategy (cache (options this)) = Merge then
               (let s' = fold set_add existing s
                in (s', cacheStore_write (cacheStore this) s' w1))
             else if set_size s > 0 then (s, cacheStore_write (cacheStore this) s w1)
             else (existing, w1)))"

definition mergeWithCacheSync :: "patcher \<Rightarrow> js_set \<Rightarrow> world \<Rightarrow> js_set \<times> world" where
  "mergeWithCacheSync this s w =
     (if \<not> cache_enabled (cache (options this)) then (s, w)
      else
        (case cacheStore_readSync (cacheStore this) w of
           (existing, w1) \<Rightarrow>
             if strategy (cache (options this)) = Merge then
               (let s' = fold set_add existing s
                in (s', cacheStore_writeSync (cacheStore this) s' w1))
             else if set_size s > 0 then (s, cacheStore_writeSync (cacheStore this) s w1)
             else (existing, w1)))"

definition getClassSet :: "'c env \<Rightarrow> patcher \<Rightarrow> world \<Rightarrow> (error + js_set) \<times> world" where
  "getClassSet env this w =
     (case runTailwindBuildIfNeeded env this w of
        (Inl e, w1) \<Rightarrow> (Inl e, w1)
      | (Inr _, w1) \<Rightarrow>
          (case collectClassSet env this w1 of
             (Inl e, w2) \<Rightarrow> (Inl e, w2)
           | (Inr s, w2) \<Rightarrow>
               (case mergeWithCache this s w2 of (r, w3) \<Rightarrow> (Inr r, w3))))"

definition getClassSetSync :: "'c env \<Rightarrow> patcher \<Rightarrow> world \<Rightarrow> (error + js_set) \<times> world" where
  "getClassSetSync env this w =
     (case collectClassSetSync env this w of
        (Inl e, w1) \<Rightarrow> (Inl e, w1)
      | (Inr s, w1) \<Rightarrow>
          (case mergeWithCacheSync this s w1 of (r, w2) \<Rightarrow> (Inr r, w2)))"






text \<open>\<^verbatim>\<open>collectContentTokens(options)\<close>, with the two optional fields of its argument.\<close>

definition collectContentTokens ::
  "'c env \<Rightarrow> patcher \<Rightarrow> string option \<Rightarrow> source_entry list option \<Rightarrow> world \<Rightarrow>
   token_report \<times> world" where
  "collectContentTokens env this cwd_arg sources_arg w =
     extractProjectCandidatesWithPositions env
       (nullish_or cwd_arg (projectRoot (options this)))
       (nullish_or
          (nullish sources_arg
             (case v4 (tailwind (options this)) of None \<Rightarrow> None | Some c \<Rightarrow> sources c))
          [])
       w"

subsection \<open>Observations on the trace\<close>

text \<open>The number of builds run, and the calls of \<^verbatim>\<open>fs-extra\<close> made to write the artifact.\<close>

fun builds_run :: "event list \<Rightarrow> nat" where
  "builds_run [] = 0"
| "builds_run (RunTailwindBuild _ # es) = Suc (builds_run es)"
| "builds_run (_ # es) = builds_run es"



subsection \<open>A model of semver's coerce\<close>

text \<open>
  The major component that \<^verbatim>\<open>coerce\<close> of the package \<^verbatim>\<open>semver\<close> yields, for use as the
  \<open>coerce\<close> of an example environment. \<^verbatim>\<open>coerce\<close> takes the first run of one to sixteen
  digits that no digit precedes or follows, with up to two further such runs behind dots,
  and parses the three as a strict version: no leading zeros, no component above
  \<open>2^53 - 1\<close>.
\<close>

definition is_digit :: "char \<Rightarrow> bool" where
  "is_digit c = (c \<in> set ''0123456789'')"

definition decimal :: "string \<Rightarrow> nat" where
  "decimal ds = foldl (\<lambda>n c. 10 * n + (of_char c - 48)) 0 ds"

function first_run :: "string \<Rightarrow> (string \<times> string) option" where
  "first_run [] = None"
| "first_run (c # cs) =
     (if is_digit c then
        (if length (c # takeWhile is_digit cs) \<le> 16
         then Some (c # takeWhile is_digit cs, dropWhile is_digit cs)
         else first_run (dropWhile is_digit cs))
      else first_run cs)"
  by pat_completeness auto
termination
  by (relation "measure length") (auto simp: less_Suc_eq_le length_dropWhile_le)

definition dot_component :: "string \<Rightarrow> (string \<times> string) option" where
  "dot_component s =
     (case s of
        [] \<Rightarrow> None
      | c # cs \<Rightarrow>
          if c = CHR ''.'' \<and> takeWhile is_digit cs \<noteq> [] \<and> length (takeWhile is_digit cs) \<le> 16
          then Some (takeWhile is_digit cs, dropWhile is_digit cs)
          else None)"

definition numeric_identifier :: "string \<Rightarrow> bool" where
  "numeric_identifier ds =
     ((ds = ''0'' \<or> take 1 ds \<noteq> ''0'') \<and> decimal ds \<le> 9007199254740991)"

definition semver_coerce_major :: "string \<Rightarrow> nat option" where
  "semver_coerce_major s =
     (case first_run s of
        None \<Rightarrow> None
      | Some (major, r1) \<Rightarrow>
          (case dot_component r1 of
             None \<Rightarrow> if numeric_identifier major then Some (decimal major) else None
           | Some (minor, r2) \<Rightarrow>
               (case dot_component r2 of
                  None \<Rightarrow>
                    if numeric_identifier major \<and> numeric_identifier minor
                    then Some (decimal major) else None
                | Some (patch, _) \<Rightarrow>
                    if numeric_identifier major \<and> numeric_identifier minor \<and>
                       numeric_identifier patch
                    then Some (decimal major) else None)))"

subsection \<open>An example project\<close>

text \<open>
  A Tailwind CSS v3 project with its cache enabled, an environment in which every
  collaborator succeeds (a runtime context is the list of its class names), and the world
  before the first run. \<open>example_patcher major on strat\<close> is the instance over that
  project whose major version is \<open>major\<close> and whose cache is \<open>on\<close> with strategy
  \<open>strat\<close>.
\<close>

definition example_tailwind :: tailwind_options where
  "example_tailwind =
     \<lparr>cwd = Some ''base'', config = Some ''tailwind.config.js'', postcssPlugin = None,
      packageName = ''tailwindcss'', versionHint = None, resolve = [],
      v2 = None,
      v3 = Some \<lparr>cwd = Some ''app'', config = None, postcssPlugin = Some ''tailwindcss''\<rparr>,
      v4 = None\<rparr>"

definition example_cache :: "bool \<Rightarrow> cache_strategy \<Rightarrow> cache_options" where
  "example_cache on strat =
     \<lparr>cache_enabled = on, cache_dir = ''.cache'', cache_file = ''classes.json'',
      strategy = strat\<rparr>"

definition example_options :: "bool \<Rightarrow> cache_strategy \<Rightarrow> normalized_options" where
  "example_options on strat =
     \<lparr>projectRoot = ''/project'',
      tailwind = example_tailwind,
      cache = example_cache on strat,
      output_cfg = \<lparr>output_enabled = True, output_file = None, format = Json,
                    pretty = PrettyNumber 2\<rparr>,
      class_filter = (\<lambda>c. c \<noteq> ''*''),
      exposeContext_refProperty = ''contextRef''\<rparr>"

definition example_info :: package_info where
  "example_info =
     \<lparr>pkg_name = ''tailwindcss'', version = Some ''3.4.1'',
      rootPath = ''/project/node_modules/tailwindcss''\<rparr>"

definition example_env :: "string list env" where
  "example_env =
     \<lparr>coerce = semver_coerce_major,
      package_lookup = (\<lambda>name paths. if name = ''tailwindcss'' then Some example_info else None),
      build_outcome = (\<lambda>w opts. None),
      contexts_loaded = (\<lambda>w info major refProperty. Inr [[''flex'', ''p-4'']]),
      classes_of_contexts = (\<lambda>contexts flt. fold set_add (filter flt (concat contexts)) []),
      classes_of_v4 = (\<lambda>w opts. Inr [''grid'']),
      path_resolve = (\<lambda>p. ''/project/'' @ p),
      path_dirname = (\<lambda>p. ''/project''),
      process_cwd = ''/project'',
      files_under = (\<lambda>w dir. [''/project/src/index.html'']),
      source_matches = (\<lambda>dir s f. True),
      candidates_of = (\<lambda>w f. Inr []),
      ensureDir_outcome = (\<lambda>w dir. None),
      writeJSON_outcome = (\<lambda>w target. None),
      writeFile_outcome = (\<lambda>w target. None)\<rparr>"

definition example_patcher :: "nat \<Rightarrow> bool \<Rightarrow> cache_strategy \<Rightarrow> patcher" where
  "example_patcher major on strat =
     \<lparr>options = example_options on strat,
      packageInfo = example_info,
      majorVersion = major,
      cacheStore = example_cache on strat\<rparr>"

definition example_world :: world where
  "example_world = \<lparr>cache_files = (\<lambda>p. Absent), trace = []\<rparr>"

definition example_world_with :: "js_set \<Rightarrow> world" where
  "example_world_with s =
     \<lparr>cache_files = (\<lambda>p. if p = (''.cache'', ''classes.json'') then Persisted s else Absent),
      trace = []\<rparr>"


section \<open>Properties\<close>

subsection \<open>Auxiliary facts\<close>

lemma cache_writes_append: "cache_writes (xs @ ys) = cache_writes xs @ cache_writes ys"
  by (induction xs rule: cache_writes.induct) auto

lemma builds_run_append: "builds_run (xs @ ys) = builds_run xs + builds_run ys"
  by (induction xs rule: builds_run.induct) auto



lemma set_fold_set_add: "set (fold set_add xs s) = set s \<union> set xs"
  by (induction xs arbitrary: s) (auto simp: set_add_def)

lemma distinct_fold_set_add: "distinct s \<Longrightarrow> distinct (fold set_add xs s)"
  by (induction xs arbitrary: s) (auto simp: set_add_def)

lemma persisted_Persisted: "persisted (Persisted s) = s"
  by (simp add: persisted_def)

lemmas store_defs =
  cacheStore_read_def cacheStore_write_def cacheStore_readSync_def cacheStore_writeSync_def
  emit_def set_size_def

lemmas example_defs =
  example_patcher_def example_options_def example_cache_def example_world_def
  example_world_with_def example_tailwind_def example_info_def example_env_def

lemmas semver_defs =
  semver_coerce_major_def dot_component_def numeric_identifier_def decimal_def is_digit_def

lemmas step_defs =
  runTailwindBuildIfNeeded_def runTailwindBuild_def collectClassSet_def
  collectClassesFromTailwindV4_def getContexts_def loadRuntimeContexts_def
  mergeWithCache_def store_defs

lemma builds_run_getClassSet:
  "builds_run (trace (snd (getClassSet env this w))) =
     builds_run (trace w) + (if majorVersion this = 2 \<or> majorVersion this = 3 then 1 else 0)"
  by (auto simp: getClassSet_def step_defs builds_run_append Let_def
      split: prod.splits sum.splits option.splits)




lemma first_event_getClassSet:
  assumes "majorVersion this = 2 \<or> majorVersion this = 3"
  shows "\<exists>es. trace (snd (getClassSet env this w)) =
         trace w @
         RunTailwindBuild
           \<lparr>exec_cwd = exec_cwd (resolveTailwindExecutionOptions (options this) (majorVersion this)),
            exec_config = exec_config (resolveTailwindExecutionOptions (options this) (majorVersion this)),
            exec_postcssPlugin =
              exec_postcssPlugin (resolveTailwindExecutionOptions (options this) (majorVersion this)),
            build_majorVersion = majorVersion this\<rparr> # es"
  using assms
  by (auto simp: getClassSet_def step_defs Let_def
      split: prod.splits sum.splits option.splits)

subsection \<open>Cache reconciliation\<close>

text \<open>
  Claim C1 (overwrite law). With the cache enabled and the strategy \<^verbatim>\<open>overwrite\<close>, for every
  observed set \<open>obs\<close> and every state of the store: if \<open>obs\<close> is non-empty,
  \<^verbatim>\<open>mergeWithCache\<close> and \<^verbatim>\<open>mergeWithCacheSync\<close> return \<open>obs\<close>, the store's file holds exactly
  \<open>obs\<close> afterwards (no other file changes) and \<open>obs\<close> is the one set written; if \<open>obs\<close>
  is empty, the persisted set is returned, no file changes and nothing is written.
\<close>

theorem overwrite_law:
  assumes "cache_enabled (cache (options this))"
    and "strategy (cache (options this)) = Overwrite"
  shows "(obs \<noteq> [] \<longrightarrow>
            fst (mergeWithCache this obs w) = obs \<and>
            cache_files (snd (mergeWithCache this obs w)) =
              (cache_files w)(store_path (cacheStore this) := Persisted obs) \<and>
            cache_writes (trace (snd (mergeWithCache this obs w))) =
              cache_writes (trace w) @ [obs] \<and>
            fst (mergeWithCacheSync this obs w) = obs \<and>
            cache_files (snd (mergeWithCacheSync this obs w)) =
              (cache_files w)(store_path (cacheStore this) := Persisted obs) \<and>
            cache_writes (trace (snd (mergeWithCacheSync this obs w))) =
              cache_writes (trace w) @ [obs]) \<and>
         (obs = [] \<longrightarrow>
            fst (mergeWithCache this obs w) =
              persisted (cache_files w (store_path (cacheStore this))) \<and>
            cache_files (snd (mergeWithCache this obs w)) = cache_files w \<and>
            cache_writes (trace (snd (mergeWithCache this obs w))) = cache_writes (trace w) \<and>
            fst (mergeWithCacheSync this obs w) =
              persisted (cache_files w (store_path (cacheStore this))) \<and>
            cache_files (snd (mergeWithCacheSync this obs w)) = cache_files w \<and>
            cache_writes (trace (snd (mergeWithCacheSync this obs w))) = cache_writes (trace w))"
  using assms
  by (simp add: mergeWithCache_def mergeWithCacheSync_def store_defs cache_writes_append)

text \<open>
  An instance over the example project: the store holds \<open>p-4\<close>; observing \<open>flex\<close> replaces
  it, observing nothing returns it and writes nothing.
\<close>

theorem overwrite_law_witness:
  "fst (mergeWithCache (example_patcher 3 True Overwrite) [''flex''] (example_world_with [''p-4''])) = [''flex'']
   \<and> cache_files (snd (mergeWithCache (example_patcher 3 True Overwrite) [''flex''] (example_world_with [''p-4''])))
         (''.cache'', ''classes.json'') = Persisted [''flex'']
   \<and> fst (mergeWithCacheSync (example_patcher 3 True Overwrite) [] (example_world_with [''p-4''])) = [''p-4'']
   \<and> cache_files (snd (mergeWithCacheSync (example_patcher 3 True Overwrite) [] (example_world_with [''p-4''])))
         (''.cache'', ''classes.json'') = Persisted [''p-4'']
   \<and> cache_writes (trace (snd (mergeWithCacheSync (example_patcher 3 True Overwrite) [] (example_world_with [''p-4''])))) = []"
  using overwrite_law [of "example_patcher 3 True Overwrite" "[''flex'']" "example_world_with [''p-4'']"]
    overwrite_law [of "example_patcher 3 True Overwrite" "[]" "example_world_with [''p-4'']"]
  by (simp add: example_defs store_path_def persisted_def)

text \<open>
  Claim C2 (merge law). With the cache enabled and the strategy \<^verbatim>\<open>merge\<close>, for every
  persisted set and every observed set \<open>obs\<close>, the empty one included, \<^verbatim>\<open>mergeWithCache\<close>
  returns a set whose members are those of the persisted set and those of \<open>obs\<close>, writes that
  set to the store, and so the persisted set only grows; the returned set holds no member
  twice when the observed one holds none twice, and \<^verbatim>\<open>mergeWithCacheSync\<close> does the same.
\<close>

theorem merge_law:
  assumes "cache_enabled (cache (options this))"
    and "strategy (cache (options this)) = Merge"
  shows "set (fst (mergeWithCache this obs w)) =
           set (persisted (cache_files w (store_path (cacheStore this)))) \<union> set obs \<and>
         cache_files (snd (mergeWithCache this obs w)) =
           (cache_files w)(store_path (cacheStore this) := Persisted (fst (mergeWithCache this obs w))) \<and>
         cache_writes (trace (snd (mergeWithCache this obs w))) =
           cache_writes (trace w) @ [fst (mergeWithCache this obs w)] \<and>
         set (persisted (cache_files w (store_path (cacheStore this)))) \<subseteq>
           set (persisted (cache_files (snd (mergeWithCache this obs w)) (store_path (cacheStore this)))) \<and>
         (distinct obs \<longrightarrow> distinct (fst (mergeWithCache this obs w))) \<and>
         mergeWithCacheSync this obs w = mergeWithCache this obs w"
  using assms
  by (auto simp: mergeWithCache_def mergeWithCacheSync_def store_defs cache_writes_append
      set_fold_set_add distinct_fold_set_add persisted_Persisted Let_def)

text \<open>
  The store holds \<open>p-4\<close> and \<open>grid\<close>: observing \<open>flex\<close> and \<open>p-4\<close> yields the three, and
  an empty observation still writes the persisted set back.
\<close>

theorem merge_law_witness:
  "fst (mergeWithCache (example_patcher 3 True Merge) [''flex'', ''p-4''] (example_world_with [''p-4'', ''grid''])) =
     [''flex'', ''p-4'', ''grid'']
   \<and> cache_files (snd (mergeWithCache (example_patcher 3 True Merge) [''flex'', ''p-4''] (example_world_with [''p-4'', ''grid''])))
         (''.cache'', ''classes.json'') = Persisted [''flex'', ''p-4'', ''grid'']
   \<and> cache_files (snd (mergeWithCache (example_patcher 3 True Merge) [] (example_world_with [''p-4'', ''grid''])))
         (''.cache'', ''classes.json'') = Persisted [''p-4'', ''grid'']
   \<and> cache_writes (trace (snd (mergeWithCache (example_patcher 3 True Merge) [] (example_world_with [''p-4'', ''grid''])))) =
         [[''p-4'', ''grid'']]"
  using merge_law [of "example_patcher 3 True Merge" "[''flex'', ''p-4'']" "example_world_with [''p-4'', ''grid'']"]
    merge_law [of "example_patcher 3 True Merge" "[]" "example_world_with [''p-4'', ''grid'']"]
  by (simp add: example_defs store_path_def persisted_def mergeWithCache_def store_defs set_add_def Let_def)

text \<open>
  Claim C7 (bypass). When \<^verbatim>\<open>cache.enabled\<close> is false, \<^verbatim>\<open>mergeWithCache\<close> and
  \<^verbatim>\<open>mergeWithCacheSync\<close> return the observed set as it is and leave the world as it is: no
  read and no write of the store is recorded, and every cache file keeps its content.
\<close>

theorem cache_disabled_bypass:
  assumes "\<not> cache_enabled (cache (options this))"
  shows "mergeWithCache this obs w = (obs, w) \<and> mergeWithCacheSync this obs w = (obs, w)"
  using assms by (simp add: mergeWithCache_def mergeWithCacheSync_def)

theorem cache_disabled_bypass_witness:
  "mergeWithCache (example_patcher 3 False Merge) [''flex''] (example_world_with [''p-4'']) =
     ([''flex''], example_world_with [''p-4''])
   \<and> mergeWithCacheSync (example_patcher 3 False Overwrite) [] (example_world_with [''p-4'']) =
     ([], example_world_with [''p-4''])"
  using cache_disabled_bypass [of "example_patcher 3 False Merge" "[''flex'']" "example_world_with [''p-4'']"]
    cache_disabled_bypass [of "example_patcher 3 False Overwrite" "[]" "example_world_with [''p-4'']"]
  by (simp add: example_defs)

subsection \<open>Version resolver\<close>

text \<open>
  Claim C4. For every \<^verbatim>\<open>coerce\<close> (which never throws: it answers \<open>None\<close> where semver's
  \<^verbatim>\<open>coerce\<close> answers \<^verbatim>\<open>null\<close>), every version string \<open>v\<close> and every hint \<open>h\<close>,
  \<^verbatim>\<open>resolveMajorVersion\<close> returns 2, 3 or 4. A hint of 2, 3 or 4 is returned as it is,
  whatever the version string. Otherwise a coerced major of 2 or 3 is returned, a major of 4
  or more gives 4 (and a major below 2 gives 3), and an absent, empty or unparsable version
  string gives 3. The four examples of the spec follow, the two on \<^verbatim>\<open>"4.0.0"\<close> and
  \<^verbatim>\<open>"4.5.2"\<close> for every \<^verbatim>\<open>coerce\<close> that reads the major 4 from these strings.
\<close>

theorem resolveMajorVersion_policy:
  "resolveMajorVersion c v h \<in> {2, 3, 4} \<and>
   (h \<in> {Some 2, Some 3, Some 4} \<longrightarrow> resolveMajorVersion c v h = the h) \<and>
   (h \<notin> {Some 2, Some 3, Some 4} \<longrightarrow>
      (v = Some s \<and> s \<noteq> [] \<and> c s = Some m \<longrightarrow>
         ((m = 2 \<or> m = 3) \<longrightarrow> resolveMajorVersion c v h = m) \<and>
         (m \<ge> 4 \<longrightarrow> resolveMajorVersion c v h = 4) \<and>
         (m < 2 \<longrightarrow> resolveMajorVersion c v h = 3)) \<and>
      (v = None \<or> v = Some [] \<or> (v = Some s \<and> c s = None) \<longrightarrow>
         resolveMajorVersion c v h = 3)) \<and>
   (c ''4.0.0'' = Some 4 \<longrightarrow> resolveMajorVersion c (Some ''4.0.0'') None = 4) \<and>
   (c ''4.5.2'' = Some 4 \<longrightarrow> resolveMajorVersion c (Some ''4.5.2'') None = 4) \<and>
   resolveMajorVersion c None None = 3 \<and>
   resolveMajorVersion c (Some ''3.1.0'') (Some 2) = 2"
  by (auto simp: resolveMajorVersion_def split: option.splits)

text \<open>The policy at the model of semver's \<^verbatim>\<open>coerce\<close>, which reads these majors.\<close>

theorem resolveMajorVersion_policy_witness:
  "semver_coerce_major ''4.0.0'' = Some 4 \<and>
   semver_coerce_major ''4.5.2'' = Some 4 \<and>
   resolveMajorVersion semver_coerce_major (Some ''4.0.0'') None = 4 \<and>
   resolveMajorVersion semver_coerce_major (Some ''4.5.2'') None = 4 \<and>
   resolveMajorVersion semver_coerce_major (Some ''3.1.0'') (Some 2) = 2 \<and>
   resolveMajorVersion semver_coerce_major (Some ''7.1.0'') None = 4 \<and>
   resolveMajorVersion semver_coerce_major (Some ''2.2.19'') None = 2 \<and>
   resolveMajorVersion semver_coerce_major (Some ''not a version'') None = 3 \<and>
   resolveMajorVersion semver_coerce_major None None = 3"
  using resolveMajorVersion_policy [of semver_coerce_major "Some ''4.0.0''" None "''4.0.0''" 4]
    resolveMajorVersion_policy [of semver_coerce_major "Some ''7.1.0''" None "''7.1.0''" 7]
    resolveMajorVersion_policy [of semver_coerce_major "Some ''2.2.19''" None "''2.2.19''" 2]
    resolveMajorVersion_policy [of semver_coerce_major "Some ''not a version''" None "''not a version''" 0]
  by (simp add: semver_defs)

subsection \<open>Execution options\<close>

text \<open>
  Claim C8. Let \<open>r\<close> be the result of \<^verbatim>\<open>resolveTailwindExecutionOptions\<close>. When the major
  version is 2 and \<^verbatim>\<open>v2\<close> is present, or 3 and \<^verbatim>\<open>v3\<close> is present, each field of that
  sub-config, where it is set, is the field of \<open>r\<close>; where it is not, the shared field of
  \<^verbatim>\<open>tailwind\<close> is taken, and for \<^verbatim>\<open>cwd\<close> the project root where the shared field is not set
  either. When the matching sub-config is absent, \<open>r\<close> has the shared fields, with the
  project root for a missing \<^verbatim>\<open>cwd\<close>.
\<close>

theorem execution_options_precedence:
  assumes "r = resolveTailwindExecutionOptions normalized major"
    and "base = tailwind normalized"
  shows "((major = 2 \<and> v2 base = Some sub) \<or> (major = 3 \<and> v3 base = Some sub) \<longrightarrow>
            (\<forall>x. cwd sub = Some x \<longrightarrow> exec_cwd r = x) \<and>
            (\<forall>x. cwd sub = None \<and> cwd base = Some x \<longrightarrow> exec_cwd r = x) \<and>
            (cwd sub = None \<and> cwd base = None \<longrightarrow> exec_cwd r = projectRoot normalized) \<and>
            (\<forall>x. config sub = Some x \<longrightarrow> exec_config r = Some x) \<and>
            (config sub = None \<longrightarrow> exec_config r = config base) \<and>
            (\<forall>x. postcssPlugin sub = Some x \<longrightarrow> exec_postcssPlugin r = Some x) \<and>
            (postcssPlugin sub = None \<longrightarrow> exec_postcssPlugin r = postcssPlugin base)) \<and>
         ((major = 2 \<and> v2 base = None) \<or> (major = 3 \<and> v3 base = None) \<longrightarrow>
            (\<forall>x. cwd base = Some x \<longrightarrow> exec_cwd r = x) \<and>
            (cwd base = None \<longrightarrow> exec_cwd r = projectRoot normalized) \<and>
            exec_config r = config base \<and>
            exec_postcssPlugin r = postcssPlugin base)"
  using assms
  by (auto simp: resolveTailwindExecutionOptions_def Let_def nullish_def nullish_or_def)

text \<open>
  The example project has a \<^verbatim>\<open>v3\<close> sub-config with \<^verbatim>\<open>cwd\<close> and \<^verbatim>\<open>postcssPlugin\<close> and no
  \<^verbatim>\<open>v2\<close> sub-config.
\<close>

theorem execution_options_precedence_witness:
  "resolveTailwindExecutionOptions (example_options True Merge) 3 =
     \<lparr>exec_cwd = ''app'', exec_config = Some ''tailwind.config.js'',
      exec_postcssPlugin = Some ''tailwindcss''\<rparr> \<and>
   resolveTailwindExecutionOptions (example_options True Merge) 2 =
     \<lparr>exec_cwd = ''base'', exec_config = Some ''tailwind.config.js'',
      exec_postcssPlugin = None\<rparr>"
  using execution_options_precedence [where r = "resolveTailwindExecutionOptions (example_options True Merge) 3"
      and normalized = "example_options True Merge" and major = 3 and base = example_tailwind
      and sub = "\<lparr>cwd = Some ''app'', config = None, postcssPlugin = Some ''tailwindcss''\<rparr>"]
    execution_options_precedence [where r = "resolveTailwindExecutionOptions (example_options True Merge) 2"
      and normalized = "example_options True Merge" and major = 2 and base = example_tailwind
      and sub = "\<lparr>cwd = Some ''app'', config = None, postcssPlugin = Some ''tailwindcss''\<rparr>"]
  by (simp add: example_defs)

subsection \<open>Construction\<close>

text \<open>
  Claim C6. With \<open>this_options\<close> the normalized options (of the converted argument, when
  it is of the legacy shape): if \<^verbatim>\<open>getPackageInfoSync\<close> finds no package for the configured
  name and resolve options, the constructor throws the error that names the package and
  there is no instance; if it finds \<open>info\<close>, the constructor returns the instance with these
  options, \<open>info\<close> as its package, the resolved major version (one of 2, 3, 4) and the
  store made from the cache options.
\<close>

theorem constructor_fails_fast:
  assumes "this_options =
             normalizeOptions (case init of Legacy l \<Rightarrow> fromLegacyOptions l | Current opts \<Rightarrow> opts)"
  shows "(getPackageInfoSync env (packageName (tailwind this_options))
            (resolve (tailwind this_options)) = None \<longrightarrow>
            new_TailwindcssPatcher env fromLegacyOptions normalizeOptions init =
              Inl (Error (''Unable to locate Tailwind CSS package '' @ [CHR 0x22] @
                     packageName (tailwind this_options) @ [CHR 0x22] @ ''.''))) \<and>
         (getPackageInfoSync env (packageName (tailwind this_options))
            (resolve (tailwind this_options)) = Some info \<longrightarrow>
            new_TailwindcssPatcher env fromLegacyOptions normalizeOptions init =
              Inr \<lparr>options = this_options,
                   packageInfo = info,
                   majorVersion = resolveMajorVersion (coerce env) (version info)
                                    (versionHint (tailwind this_options)),
                   cacheStore = cache this_options\<rparr> \<and>
            resolveMajorVersion (coerce env) (version info)
              (versionHint (tailwind this_options)) \<in> {2, 3, 4})"
  using assms
  by (auto simp: new_TailwindcssPatcher_def unable_to_locate_def Let_def resolveMajorVersion_def
      split: option.splits)

text \<open>
  The example environment finds \<^verbatim>\<open>tailwindcss\<close> at version 3.4.1; one that finds nothing makes
  the constructor throw.
\<close>

theorem constructor_fails_fast_witness:
  "new_TailwindcssPatcher example_env (\<lambda>l. (True, Merge)) (\<lambda>(on, strat). example_options on strat)
     (Legacy ()) = Inr (example_patcher 3 True Merge) \<and>
   new_TailwindcssPatcher (example_env\<lparr>package_lookup := \<lambda>name paths. None\<rparr>)
     (\<lambda>l::unit. (True, Merge)) (\<lambda>(on, strat). example_options on strat) (Current (False, Overwrite)) =
     Inl (Error (unable_to_locate ''tailwindcss''))"
  using constructor_fails_fast [where this_options = "example_options True Merge"
      and normalizeOptions = "\<lambda>(on, strat). example_options on strat"
      and init = "Legacy ()" and fromLegacyOptions = "\<lambda>l. (True, Merge)"
      and env = example_env and info = example_info]
    constructor_fails_fast [where this_options = "example_options False Overwrite"
      and normalizeOptions = "\<lambda>(on, strat). example_options on strat"
      and init = "Current (False, Overwrite)" and fromLegacyOptions = "\<lambda>l::unit. (True, Merge)"
      and env = "example_env\<lparr>package_lookup := \<lambda>name paths. None\<rparr>" and info = example_info]
  by (simp add: example_defs getPackageInfoSync_def unable_to_locate_def semver_defs
      resolveMajorVersion_def)

subsection \<open>Collecting the class set\<close>

text \<open>
  Claim C5. On an instance whose major version is 4, \<^verbatim>\<open>collectClassSetSync\<close> and
  \<^verbatim>\<open>getClassSetSync\<close> throw the error whose message says that \<^verbatim>\<open>getClassSetSync\<close> is not
  supported for Tailwind CSS v4 projects, and the world is as before: no context is loaded,
  no collector runs and the cache store is neither read nor written.
\<close>

theorem sync_unsupported_for_v4:
  assumes "majorVersion this = 4"
  shows "collectClassSetSync env this w =
           (Inl (Error ''getClassSetSync is not supported for Tailwind CSS v4 projects. Use getClassSet instead.''), w) \<and>
         getClassSetSync env this w =
           (Inl (Error ''getClassSetSync is not supported for Tailwind CSS v4 projects. Use getClassSet instead.''), w)"
  using assms by (simp add: getClassSetSync_def collectClassSetSync_def sync_unsupported_def)

theorem sync_unsupported_for_v4_witness:
  "getClassSetSync example_env (example_patcher 4 True Merge) (example_world_with [''p-4'']) =
     (Inl (Error ''getClassSetSync is not supported for Tailwind CSS v4 projects. Use getClassSet instead.''),
      example_world_with [''p-4''])"
  using sync_unsupported_for_v4 [of "example_patcher 4 True Merge" example_env "example_world_with [''p-4'']"]
  by (simp add: example_patcher_def)

text \<open>
  Claim C3, as the code has it. The class keeps no record of a build that has run:
  \<^verbatim>\<open>runTailwindBuildIfNeeded\<close> tests the major version only. On a v2 or v3 instance every
  call of \<^verbatim>\<open>getClassSet\<close> runs the build once, as its first step and with the resolved
  execution options, so that two calls in a row run it twice; on any other instance no
  call runs it.
\<close>

theorem build_runs_on_every_call:
  "(majorVersion this = 2 \<or> majorVersion this = 3 \<longrightarrow>
      builds_run (trace (snd (getClassSet env this w))) = builds_run (trace w) + 1 \<and>
      builds_run (trace (snd (getClassSet env this (snd (getClassSet env this w))))) =
        builds_run (trace w) + 2 \<and>
      (\<exists>es. trace (snd (getClassSet env this w)) =
         trace w @
         RunTailwindBuild
           \<lparr>exec_cwd = exec_cwd (resolveTailwindExecutionOptions (options this) (majorVersion this)),
            exec_config = exec_config (resolveTailwindExecutionOptions (options this) (majorVersion this)),
            exec_postcssPlugin =
              exec_postcssPlugin (resolveTailwindExecutionOptions (options this) (majorVersion this)),
            build_majorVersion = majorVersion this\<rparr> # es)) \<and>
   (majorVersion this \<noteq> 2 \<and> majorVersion this \<noteq> 3 \<longrightarrow>
      builds_run (trace (snd (getClassSet env this w))) = builds_run (trace w))"
proof (intro conjI impI)
  assume m: "majorVersion this = 2 \<or> majorVersion this = 3"
  show "builds_run (trace (snd (getClassSet env this w))) = builds_run (trace w) + 1"
    using m by (simp add: builds_run_getClassSet)
  show "builds_run (trace (snd (getClassSet env this (snd (getClassSet env this w))))) =
          builds_run (trace w) + 2"
    using m by (simp add: builds_run_getClassSet)
  show "\<exists>es. trace (snd (getClassSet env this w)) =
         trace w @
         RunTailwindBuild
           \<lparr>exec_cwd = exec_cwd (resolveTailwindExecutionOptions (options this) (majorVersion this)),
            exec_config = exec_config (resolveTailwindExecutionOptions (options this) (majorVersion this)),
            exec_postcssPlugin =
              exec_postcssPlugin (resolveTailwindExecutionOptions (options this) (majorVersion this)),
            build_majorVersion = majorVersion this\<rparr> # es"
    using m by (rule first_event_getClassSet)
next
  assume "majorVersion this \<noteq> 2 \<and> majorVersion this \<noteq> 3"
  then show "builds_run (trace (snd (getClassSet env this w))) = builds_run (trace w)"
    by (simp add: builds_run_getClassSet)
qed

theorem build_runs_on_every_call_witness:
  "builds_run (trace (snd (getClassSet example_env (example_patcher 2 True Merge) example_world))) = 1 \<and>
   builds_run (trace (snd (getClassSet example_env (example_patcher 2 True Merge)
     (snd (getClassSet example_env (example_patcher 2 True Merge) example_world))))) = 2 \<and>
   builds_run (trace (snd (getClassSet example_env (example_patcher 4 True Merge) example_world))) = 0"
  using build_runs_on_every_call [of "example_patcher 2 True Merge" example_env example_world]
    build_runs_on_every_call [of "example_patcher 4 True Merge" example_env example_world]
  by (simp add: example_patcher_def example_world_def)

text \<open>
  The claim as the spec states it, that a second call of \<^verbatim>\<open>getClassSet\<close> on the same v3
  instance does not run the build again, fails on the example project: one build after the
  first call, two after the second.
\<close>

theorem build_once_counterexample:
  "builds_run (trace (snd (getClassSet example_env (example_patcher 3 True Merge) example_world))) = 1 \<and>
   builds_run (trace (snd (getClassSet example_env (example_patcher 3 True Merge)
     (snd (getClassSet example_env (example_patcher 3 True Merge) example_world))))) = 2"
  by (simp add: getClassSet_def step_defs example_defs collectClassesFromContexts_def Let_def
      persisted_def store_path_def)

subsection \<open>Writing the class list\<close>




subsection \<open>Collecting content tokens\<close>

text \<open>
  Claim C10. Called without arguments, \<^verbatim>\<open>collectContentTokens\<close> scans with the project
  root as \<^verbatim>\<open>cwd\<close> and with \<^verbatim>\<open>tailwind.v4.sources\<close> as the sources when they are present,
  the empty list otherwise; the major version of the instance plays no part. With no v4
  sources configured the extractor, as the spec describes it, matches no file, and the
  report is empty.
\<close>

theorem collectContentTokens_defaults:
  "collectContentTokens env this None None w =
     extractProjectCandidatesWithPositions env (projectRoot (options this))
       (case v4 (tailwind (options this)) of
          None \<Rightarrow> []
        | Some c \<Rightarrow> (case sources c of None \<Rightarrow> [] | Some ss \<Rightarrow> ss))
       w \<and>
   collectContentTokens env (this\<lparr>majorVersion := major\<rparr>) None None w =
     collectContentTokens env this None None w \<and>
   (v4 (tailwind (options this)) = None \<or>
    (\<exists>c. v4 (tailwind (options this)) = Some c \<and> (sources c = None \<or> sources c = Some [])) \<longrightarrow>
      fst (collectContentTokens env this None None w) =
        \<lparr>entries = [], filesScanned = 0, skippedFiles = []\<rparr>)"
  by (auto simp: collectContentTokens_def extractProjectCandidatesWithPositions_def
      nullish_def nullish_or_def Let_def split: option.splits)

theorem collectContentTokens_defaults_witness:
  "collectContentTokens example_env (example_patcher 3 True Merge) None None example_world =
     (\<lparr>entries = [], filesScanned = 0, skippedFiles = []\<rparr>,
      \<lparr>cache_files = (\<lambda>p. Absent), trace = [ExtractProjectCandidates ''/project'' []]\<rparr>) \<and>
   fst (collectContentTokens example_env (example_patcher 4 True Merge) None None example_world) =
     \<lparr>entries = [], filesScanned = 0, skippedFiles = []\<rparr> \<and>
   fst (collectContentTokens example_env (example_patcher 3 True Merge) None (Some [''src/**''])
     example_world) =
     \<lparr>entries = [], filesScanned = 1, skippedFiles = []\<rparr>"
  using collectContentTokens_defaults [of example_env "example_patcher 3 True Merge" example_world 4]
  by (simp add: example_defs extractProjectCandidatesWithPositions_def emit_def
      collectContentTokens_def nullish_def nullish_or_def)

end
